theory Spec2Isabelle
  imports Main
begin

section \<open>Go values: errors, interface values, type assertions\<close>

text \<open>
  Errors of the program. \<open>redis_Nil\<close> is the sentinel \<^verbatim>\<open>redis.Nil\<close>,
  \<open>errors_New msg\<close> is \<^verbatim>\<open>errors.New(msg)\<close> (and any other error
  value identified by its message), \<open>errors_Wrap e msg\<close> is
  \<^verbatim>\<open>errors.Wrap(e, msg)\<close> of github.com/pkg/errors, which keeps its cause.
  A Go \<^verbatim>\<open>error\<close> is a \<open>goerr option\<close>: \<open>None\<close> is the nil error.
\<close>

datatype goerr = redis_Nil | errors_New string | errors_Wrap goerr string

text \<open>\<^verbatim>\<open>errors.Is(err, target)\<close>: the chain of causes of \<open>err\<close> holds \<open>target\<close>.\<close>

fun errors_Is :: "goerr \<Rightarrow> goerr \<Rightarrow> bool" where
  "errors_Is (errors_Wrap c msg) target =
     (errors_Wrap c msg = target \<or> errors_Is c target)"
| "errors_Is e target = (e = target)"

text \<open>
  A value of type \<^verbatim>\<open>interface{}\<close> is nil, or a dynamic type (by name) with a
  value of that type.
\<close>

type_synonym tyname = string

datatype 'v iface = nil_iface | boxed tyname 'v

text \<open>
  The type parameter \<^verbatim>\<open>T\<close> of \<^verbatim>\<open>Singleflight[T any]\<close>, passed
  explicitly: a non-interface type, given by its name and its zero value, or an
  interface type, given by the dynamic types that implement it. A value of type
  \<open>T\<close> is represented by its conversion to \<^verbatim>\<open>interface{}\<close>: for a
  non-interface \<open>T\<close> that is \<open>boxed T v\<close> (never nil, also when \<open>v\<close> is a nil
  pointer); for an interface \<open>T\<close> it is the interface value itself, nil included.
\<close>

datatype 'v gotype = Concrete tyname 'v | Interface "tyname \<Rightarrow> bool"

fun has_type :: "'v gotype \<Rightarrow> 'v iface \<Rightarrow> bool" where
  "has_type (Concrete t z) (boxed t' v) = (t' = t)"
| "has_type (Concrete t z) nil_iface = False"
| "has_type (Interface impl) (boxed t' v) = impl t'"
| "has_type (Interface impl) nil_iface = True"

text \<open>\<^verbatim>\<open>*new(T)\<close>: the zero value of \<open>T\<close>.\<close>

fun zero_value :: "'v gotype \<Rightarrow> 'v iface" where
  "zero_value (Concrete t z) = boxed t z"
| "zero_value (Interface impl) = nil_iface"

text \<open>
  The comma-ok type assertion \<^verbatim>\<open>result, ok := res.(T)\<close>: \<open>None\<close> is
  \<^verbatim>\<open>ok == false\<close>. A nil interface value fails every assertion.
\<close>

fun type_assert :: "'v gotype \<Rightarrow> 'v iface \<Rightarrow> 'v iface option" where
  "type_assert T nil_iface = None"
| "type_assert (Concrete t z) (boxed t' v) = (if t' = t then Some (boxed t' v) else None)"
| "type_assert (Interface impl) (boxed t' v) = (if impl t' then Some (boxed t' v) else None)"

section \<open>The single-flight group\<close>

text \<open>
  A work function \<^verbatim>\<open>func() (T, error)\<close> acting on a world \<open>'w\<close> (what its
  side effects touch): it returns its pair and the new world.
\<close>

type_synonym ('v, 'w) workfn = "'w \<Rightarrow> ('v iface \<times> goerr option) \<times> 'w"

text \<open>
  Modelled from the spec: \<^verbatim>\<open>Group.Do\<close> and \<^verbatim>\<open>Group.Forget\<close> of
  golang.org/x/sync/singleflight, which this repository calls and does not contain.
  The group maps a key to the call in flight for it, if any, seen from one caller:
  the call is given by the result it stores when it completes. \<open>Group_Do\<close>: with no
  call registered for the key the caller registers one, runs the work function,
  deregisters it and gets the function's result; with a call registered the caller
  waits for it and gets its stored result, and the work function is not run.
  \<open>Group_Forget\<close> removes the call registered for the key.
\<close>

type_synonym 'v group = "string \<rightharpoonup> ('v iface \<times> goerr option)"

definition Group_Do :: "'v group \<Rightarrow> string \<Rightarrow> ('v, 'w) workfn \<Rightarrow> ('v, 'w) workfn" where
  "Group_Do g key fn w = (case g key of None \<Rightarrow> fn w | Some r \<Rightarrow> (r, w))"

definition Group_Forget :: "'v group \<Rightarrow> string \<Rightarrow> 'v group" where
  "Group_Forget g key = g(key := None)"

record 'v Singleflight =
  Group :: "'v group"
  Key :: string

text \<open>
  \<^verbatim>\<open>func (single *Singleflight[T]) ProccesWrapper(fn func() (T, error)) (T, error)\<close>.
  \<open>wrapperFn\<close> converts the value of \<open>fn\<close> to \<^verbatim>\<open>interface{}\<close>, the
  identity on the representation.
\<close>

definition ProccesWrapper ::
  "'v gotype \<Rightarrow> 'v Singleflight \<Rightarrow> ('v, 'w) workfn \<Rightarrow> ('v, 'w) workfn" where
  "ProccesWrapper T single fn w =
     (let wrapperFn = (\<lambda>w0. fn w0);
          ((res, err), w') = Group_Do (Group single) (Key single) wrapperFn w
      in case type_assert T res of
           Some result \<Rightarrow> ((result, err), w')
         | None \<Rightarrow>
             ((zero_value T, Some (errors_New ''unexpected type assertion failure'')), w'))"

text \<open>
  What \<open>ProccesWrapper\<close> makes of the result of \<^verbatim>\<open>Group.Do\<close>, for stating
  its properties: the pair itself when its value
  asserts to \<open>T\<close>, the zero value and the fixed error otherwise.
\<close>

definition asserted :: "'v gotype \<Rightarrow> 'v iface \<times> goerr option \<Rightarrow> 'v iface \<times> goerr option" where
  "asserted T r =
     (case type_assert T (fst r) of
        Some result \<Rightarrow> (result, snd r)
      | None \<Rightarrow> (zero_value T, Some (errors_New ''unexpected type assertion failure'')))"

text \<open>\<^verbatim>\<open>func (single *Singleflight[T]) Forget(keys ...string)\<close>.\<close>

definition Forget :: "'v Singleflight \<Rightarrow> string list \<Rightarrow> 'v Singleflight" where
  "Forget single keys = single\<lparr>Group := foldl Group_Forget (Group single) keys\<rparr>"

text \<open>Inputs of the examples: the type \<^verbatim>\<open>any\<close>, and a work function that fails.\<close>

definition any_type :: "unit gotype" where
  "any_type = Interface (\<lambda>t. True)"

definition idle_flight :: "unit Singleflight" where
  "idle_flight = \<lparr>Group = Map.empty, Key = ''k''\<rparr>"

definition failing_work :: "(unit, unit) workfn" where
  "failing_work w = ((nil_iface, Some (errors_New ''boom'')), w)"

section \<open>The cache-backed product fetch\<close>

record Product =
  ID :: int
  Name :: string

text \<open>
  \<^verbatim>\<open>*Product\<close> is a \<open>Product option\<close> (\<open>None\<close> the nil pointer), and the
  type argument of \<^verbatim>\<open>Singleflight[*Product]\<close> is \<open>ProductPtr\<close>.
\<close>

definition ProductPtr :: "Product option gotype" where
  "ProductPtr = Concrete ''*main.Product'' None"

text \<open>The pointer held by a value of type \<^verbatim>\<open>*Product\<close>.\<close>

fun ptr_of :: "'a option iface \<Rightarrow> 'a option" where
  "ptr_of (boxed t p) = p"
| "ptr_of nil_iface = None"

text \<open>\<^verbatim>\<open>fmt.Sprintf("%v", n)\<close> for an \<^verbatim>\<open>int\<close>: its decimal digits.\<close>

fun nat_digits :: "nat \<Rightarrow> string" where
  "nat_digits n =
     (if n < 10 then [''0123456789'' ! n]
      else nat_digits (n div 10) @ [''0123456789'' ! (n mod 10)])"

declare nat_digits.simps [simp del]

definition Sprint :: "int \<Rightarrow> string" where
  "Sprint n = (if n < 0 then ''-'' @ nat_digits (nat (- n)) else nat_digits (nat n))"

text \<open>
  The two keys of a product: \<^verbatim>\<open>fmt.Sprintf("singleflight:product:%v", productID)\<close>
  names its call in the group, \<^verbatim>\<open>fmt.Sprintf("product:%v", productID)\<close> its
  entry in the cache.
\<close>

definition flight_key :: "int \<Rightarrow> string" where
  "flight_key productID = ''singleflight:product:'' @ Sprint productID"

definition cache_key :: "int \<Rightarrow> string" where
  "cache_key productID = ''product:'' @ Sprint productID"

text \<open>
  Modelled from the spec: the cache/store collaborator, \<^verbatim>\<open>*redis.Client\<close> of
  github.com/redis/go-redis, which this repository calls and does not contain. The
  client is the store's content \<open>kv\<close>, the failure \<open>fault\<close> its commands meet (if
  any: a transport error), and the commands \<open>sent\<close> so far. \<open>rdb_Get\<close> is
  \<^verbatim>\<open>rdb.Get(ctx, key).Result()\<close>: the value, or \<^verbatim>\<open>redis.Nil\<close> for a
  key the store does not hold; \<open>rdb_Set\<close> is \<^verbatim>\<open>rdb.Set(ctx, key, value, 0).Err()\<close>.
\<close>

datatype redis_cmd = GET string | SET string string

record redis_Client =
  kv :: "string \<rightharpoonup> string"
  fault :: "goerr option"
  sent :: "redis_cmd list"

definition rdb_Get :: "string \<Rightarrow> redis_Client \<Rightarrow> (string \<times> goerr option) \<times> redis_Client" where
  "rdb_Get key rdb =
     (let rdb' = rdb\<lparr>sent := sent rdb @ [GET key]\<rparr>
      in case fault rdb of
           Some e \<Rightarrow> (([], Some e), rdb')
         | None \<Rightarrow>
             (case kv rdb key of
                None \<Rightarrow> (([], Some redis_Nil), rdb')
              | Some val \<Rightarrow> ((val, None), rdb')))"

definition rdb_Set :: "string \<Rightarrow> string \<Rightarrow> redis_Client \<Rightarrow> goerr option \<times> redis_Client" where
  "rdb_Set key val rdb =
     (let rdb' = rdb\<lparr>sent := sent rdb @ [SET key val]\<rparr>
      in case fault rdb of
           Some e \<Rightarrow> (Some e, rdb')
         | None \<Rightarrow> (None, rdb'\<lparr>kv := (kv rdb)(key \<mapsto> val)\<rparr>))"

text \<open>
  The work function that \<^verbatim>\<open>getProductFromCache\<close> passes to the wrapper.
  \<open>json_Unmarshal\<close> stands for \<^verbatim>\<open>json.Unmarshal([]byte(val), &product)\<close> of the
  standard library: the decoded product, or the decoder's error.
\<close>

definition getProductFromCache_fn ::
  "(string \<Rightarrow> goerr + Product) \<Rightarrow> int \<Rightarrow> (Product option, redis_Client) workfn" where
  "getProductFromCache_fn json_Unmarshal productID rdb =
     (let ((val, err), rdb') = rdb_Get (cache_key productID) rdb
      in case err of
           Some e \<Rightarrow>
             (if errors_Is e redis_Nil then ((boxed ''*main.Product'' None, None), rdb')
              else ((boxed ''*main.Product'' None, Some e), rdb'))
         | None \<Rightarrow>
             (case json_Unmarshal val of
                Inl e \<Rightarrow>
                  ((boxed ''*main.Product'' None,
                    Some (errors_Wrap e ''Failed to unmarshal product'')), rdb')
              | Inr product \<Rightarrow> ((boxed ''*main.Product'' (Some product), None), rdb')))"

text \<open>
  \<^verbatim>\<open>func getProductFromCache(rdb, sGroup, productID, currIdx) (*Product, error)\<close>.
  It returns its pair, the group (changed by \<open>Forget\<close>) and the client.
\<close>

definition getProductFromCache ::
  "(string \<Rightarrow> goerr + Product) \<Rightarrow> redis_Client \<Rightarrow> Product option group \<Rightarrow> int \<Rightarrow> int \<Rightarrow>
     (Product option \<times> goerr option) \<times> Product option group \<times> redis_Client" where
  "getProductFromCache json_Unmarshal rdb sGroup productID currIdx =
     (let singleflightInstance =
            \<lparr>Group = sGroup, Key = flight_key productID\<rparr>;
          forgotten =
            (if currIdx = 2
             then Forget singleflightInstance [flight_key productID]
             else singleflightInstance);
          ((res, err), rdb') =
            ProccesWrapper ProductPtr forgotten
              (getProductFromCache_fn json_Unmarshal productID) rdb
      in case err of
           Some e \<Rightarrow>
             ((None, Some (errors_Wrap e ''Failed to get product from cache'')),
              Group forgotten, rdb')
         | None \<Rightarrow> ((ptr_of res, None), Group forgotten, rdb'))"

text \<open>
  Inputs of the examples. \<open>product1\<close> is the product that \<^verbatim>\<open>main\<close> stores,
  \<open>product1_json\<close> the bytes that \<^verbatim>\<open>json.Marshal(product)\<close> gives for it, and
  \<open>garbage_error\<close> the message of the error of \<^verbatim>\<open>json.Unmarshal\<close> on the
  payload \<^verbatim>\<open>garbage\<close>. \<open>decode1\<close> answers as \<^verbatim>\<open>json.Unmarshal\<close> does on
  the two payloads that the examples store, \<open>product1_json\<close> and \<^verbatim>\<open>garbage\<close>;
  the examples give it no other payload. The clients: one that holds the entry of
  product 1, one that holds a corrupt entry, one that holds none, and one whose
  connection is refused.
\<close>

definition product1 :: Product where
  "product1 = \<lparr>ID = 1, Name = ''Product 1''\<rparr>"

definition product9 :: Product where
  "product9 = \<lparr>ID = 9, Name = ''Product 9''\<rparr>"

definition product1_json :: string where
  \<open>product1_json = ''{"ID":1,"Name":"Product 1"}''\<close>

definition garbage_error :: string where
  \<open>garbage_error = ''invalid character 'g' looking for beginning of value''\<close>

definition decode1 :: "string \<Rightarrow> goerr + Product" where
  "decode1 val =
     (if val = product1_json then Inr product1 else Inl (errors_New garbage_error))"

definition rdb_hit :: redis_Client where
  "rdb_hit = \<lparr>kv = [''product:1'' \<mapsto> product1_json], fault = None, sent = []\<rparr>"

definition rdb_corrupt :: redis_Client where
  "rdb_corrupt = \<lparr>kv = [''product:1'' \<mapsto> ''garbage''], fault = None, sent = []\<rparr>"

definition rdb_empty :: redis_Client where
  "rdb_empty = \<lparr>kv = Map.empty, fault = None, sent = []\<rparr>"

definition rdb_down :: redis_Client where
  "rdb_down =
     \<lparr>kv = [''product:1'' \<mapsto> product1_json],
      fault = Some (errors_New ''dial tcp 127.0.0.1:6379: connect: connection refused''),
      sent = []\<rparr>"

definition group_idle :: "Product option group" where
  "group_idle = Map.empty"

definition group_busy :: "Product option group" where
  "group_busy =
     [''singleflight:product:1'' \<mapsto> (boxed ''*main.Product'' (Some product9), None)]"

section \<open>The account update under a distributed mutex\<close>

text \<open>
  \<^verbatim>\<open>*redsync.Mutex\<close> of github.com/go-redsync/redsync, taken as a parameter: its
  \<^verbatim>\<open>Lock() error\<close> and \<^verbatim>\<open>Unlock() (bool, error)\<close> acting on the state
  \<open>'s\<close> of the lock store.
\<close>

record 's Mutex =
  Lock :: "'s \<Rightarrow> goerr option \<times> 's"
  Unlock :: "'s \<Rightarrow> (bool \<times> goerr option) \<times> 's"

text \<open>
  \<^verbatim>\<open>func AddToBankAccountWithMutex(accountId string, amount int, redSync) (err error)\<close>.
  \<open>NewMutex\<close> is \<^verbatim>\<open>redSync.NewMutex\<close>, and \<open>mutex_name\<close> is
  \<^verbatim>\<open>fmt.Sprintf("add-account:{%s}", accountId)\<close>. The deferred function calls
  \<open>Unlock\<close> and returns on either outcome; its \<^verbatim>\<open>err\<close> is a variable of its
  own, so the named result keeps the nil that \<open>Lock\<close> gave it.
\<close>

definition mutex_name :: "string \<Rightarrow> string" where
  "mutex_name accountId = ''add-account:{'' @ accountId @ ''}''"

definition AddToBankAccountWithMutex ::
  "string \<Rightarrow> int \<Rightarrow> (string \<Rightarrow> 's Mutex) \<Rightarrow> 's \<Rightarrow> goerr option \<times> 's" where
  "AddToBankAccountWithMutex accountId amount NewMutex s =
     (let mutex = NewMutex (mutex_name accountId);
          (err, s1) = Lock mutex s
      in case err of
           Some e \<Rightarrow> (Some e, s1)
         | None \<Rightarrow> (let ((ok, err'), s2) = Unlock mutex s1 in (err, s2)))"

text \<open>Inputs of the examples: a mutex whose unlock succeeds, and one whose unlock fails.\<close>

definition mutex_ok :: "string \<Rightarrow> nat Mutex" where
  "mutex_ok nm = \<lparr>Lock = (\<lambda>s. (None, Suc s)), Unlock = (\<lambda>s. ((True, None), s - 1))\<rparr>"

definition mutex_lost :: "string \<Rightarrow> nat Mutex" where
  "mutex_lost nm =
     \<lparr>Lock = (\<lambda>s. (None, Suc s)),
      Unlock = (\<lambda>s. ((False, Some (errors_New ''lock already expired'')), s))\<rparr>"

section \<open>Concurrent callers of one key\<close>






text \<open>Inputs of the examples: a work function that counts its runs in the world.\<close>

definition int_type :: "int gotype" where
  "int_type = Concrete ''int'' 0"

definition counting_work :: "(int, nat) workfn" where
  "counting_work w = ((boxed ''int'' 7, None), Suc w)"


definition string_flight :: "int Singleflight" where
  "string_flight = \<lparr>Group = [''k'' \<mapsto> (boxed ''string'' 0, None)], Key = ''k''\<rparr>"

section \<open>The lease store of the distributed mutex\<close>

text \<open>
  Modelled from the spec: the lease store collaborator and the LockLease of the data
  model, which are code of github.com/go-redsync/redsync and of the Redis server, not
  of this repository. A lease is a resource name, an owner token and an expiry
  deadline; the store is the leases it holds and its clock. A lease is unexpired
  while the clock is before its deadline. \<open>TryCreate\<close> creates a lease if and only
  if no unexpired lease exists for the name, \<open>DeleteIfOwner\<close> deletes the leases of
  the name whose token matches, if an unexpired one exists; \<open>elapse\<close> advances the
  clock and \<open>purge\<close> drops the expired leases.
\<close>

record lease =
  lname :: string
  owner :: string
  expiry :: nat

record lease_store =
  leases :: "lease list"
  clock :: nat

definition unexpired :: "lease_store \<Rightarrow> lease \<Rightarrow> bool" where
  "unexpired s l = (clock s < expiry l)"

definition held :: "lease_store \<Rightarrow> string \<Rightarrow> lease list" where
  "held s nm = filter (\<lambda>l. lname l = nm \<and> unexpired s l) (leases s)"

definition TryCreate :: "string \<Rightarrow> string \<Rightarrow> nat \<Rightarrow> lease_store \<Rightarrow> bool \<times> lease_store" where
  "TryCreate nm tok ttl s =
     (if held s nm = []
      then (True, s\<lparr>leases := \<lparr>lname = nm, owner = tok, expiry = clock s + ttl\<rparr> # leases s\<rparr>)
      else (False, s))"

definition DeleteIfOwner :: "string \<Rightarrow> string \<Rightarrow> lease_store \<Rightarrow> bool \<times> lease_store" where
  "DeleteIfOwner nm tok s =
     (if filter (\<lambda>l. owner l = tok) (held s nm) = [] then (False, s)
      else (True, s\<lparr>leases := filter (\<lambda>l. \<not> (lname l = nm \<and> owner l = tok)) (leases s)\<rparr>))"

definition elapse :: "nat \<Rightarrow> lease_store \<Rightarrow> lease_store" where
  "elapse d s = s\<lparr>clock := clock s + d\<rparr>"

definition purge :: "lease_store \<Rightarrow> lease_store" where
  "purge s = s\<lparr>leases := filter (unexpired s) (leases s)\<rparr>"

text \<open>
  The mutex of an owner token over the lease store: \<open>Lock\<close> fails with the
  contention error when the lease is not created, \<open>Unlock\<close> reports whether the
  lease was released.
\<close>

definition lease_Mutex :: "string \<Rightarrow> nat \<Rightarrow> string \<Rightarrow> lease_store Mutex" where
  "lease_Mutex tok ttl nm =
     \<lparr>Lock = (\<lambda>s. case TryCreate nm tok ttl s of
                (True, s') \<Rightarrow> (None, s')
              | (False, s') \<Rightarrow> (Some (errors_New ''LockContention''), s')),
      Unlock = (\<lambda>s. case DeleteIfOwner nm tok s of
                (True, s') \<Rightarrow> ((True, None), s')
              | (False, s') \<Rightarrow> ((False, Some (errors_New ''LockOwnershipMismatch'')), s'))\<rparr>"

text \<open>
  The steps of the processes that share the store, in any order: a \<open>Lock\<close> and an
  \<open>Unlock\<close> of some owner, a whole run of \<open>AddToBankAccountWithMutex\<close>, the passing
  of time, and the expiry of leases.
\<close>

datatype lease_event =
    Lock_by string nat string
  | Unlock_by string nat string
  | Account_update string int string nat
  | Elapse nat
  | Purge

fun lease_step :: "lease_store \<Rightarrow> lease_event \<Rightarrow> lease_store" where
  "lease_step s (Lock_by tok ttl nm) = snd (Lock (lease_Mutex tok ttl nm) s)"
| "lease_step s (Unlock_by tok ttl nm) = snd (Unlock (lease_Mutex tok ttl nm) s)"
| "lease_step s (Account_update accountId amount tok ttl) =
     snd (AddToBankAccountWithMutex accountId amount (lease_Mutex tok ttl) s)"
| "lease_step s (Elapse d) = elapse d s"
| "lease_step s Purge = purge s"

definition interleaving :: "lease_event list \<Rightarrow> lease_store" where
  "interleaving evs = foldl lease_step \<lparr>leases = [], clock = 0\<rparr> evs"

section \<open>Properties of the wrapper\<close>


lemma type_assert_None_iff:
  "type_assert T x = None \<longleftrightarrow> \<not> has_type T x \<or> x = nil_iface"
  by (cases T; cases x) auto

lemma has_type_zero_value: "has_type T (zero_value T)"
  by (cases T) auto

lemma Group_Do_idle: "g key = None \<Longrightarrow> Group_Do g key fn w = fn w"
  by (simp add: Group_Do_def)

lemma Group_Do_joined: "g key = Some r \<Longrightarrow> Group_Do g key fn w = (r, w)"
  by (simp add: Group_Do_def)

lemma ProccesWrapper_of_Do:
  "Group_Do (Group single) (Key single) fn w = ((res, err), w') \<Longrightarrow>
   ProccesWrapper T single fn w =
     (case type_assert T res of
        Some result \<Rightarrow> ((result, err), w')
      | None \<Rightarrow> ((zero_value T, Some (errors_New ''unexpected type assertion failure'')), w'))"
  by (simp add: ProccesWrapper_def)

text \<open>
  Claim C7. Whenever the result that \<^verbatim>\<open>Group.Do\<close> hands to \<open>ProccesWrapper\<close>
  does not have the caller's type \<open>T\<close>, the wrapper returns a non-nil error, the
  wrapper's own error of the failed type assertion, and the value it returns is a
  value of type \<open>T\<close> that is not the mismatched result.
\<close>

theorem ProccesWrapper_reports_type_mismatch:
  assumes "Group_Do (Group single) (Key single) fn w = ((res, err), w')"
    and "\<not> has_type T res"
  shows "snd (fst (ProccesWrapper T single fn w))
           = Some (errors_New ''unexpected type assertion failure'')
       \<and> snd (fst (ProccesWrapper T single fn w)) \<noteq> None
       \<and> has_type T (fst (fst (ProccesWrapper T single fn w)))
       \<and> fst (fst (ProccesWrapper T single fn w)) \<noteq> res"
proof -
  from assms(2) have "type_assert T res = None"
    by (simp add: type_assert_None_iff)
  with assms(1) have "ProccesWrapper T single fn w =
      ((zero_value T, Some (errors_New ''unexpected type assertion failure'')), w')"
    by (simp add: ProccesWrapper_of_Do)
  moreover have "zero_value T \<noteq> res"
    using assms(2) has_type_zero_value by metis
  ultimately show ?thesis
    by (simp add: has_type_zero_value)
qed

theorem ProccesWrapper_reports_type_mismatch_witness:
  "Group_Do (Group string_flight) (Key string_flight) counting_work 0
     = ((boxed ''string'' 0, None), 0)
   \<and> \<not> has_type int_type (boxed ''string'' 0)
   \<and> snd (fst (ProccesWrapper int_type string_flight counting_work 0))
       = Some (errors_New ''unexpected type assertion failure'')
   \<and> snd (fst (ProccesWrapper int_type string_flight counting_work 0)) \<noteq> None
   \<and> has_type int_type (fst (fst (ProccesWrapper int_type string_flight counting_work 0)))
   \<and> fst (fst (ProccesWrapper int_type string_flight counting_work 0)) \<noteq> boxed ''string'' 0"
proof -
  have d: "Group_Do (Group string_flight) (Key string_flight) counting_work 0
     = ((boxed ''string'' 0, None), 0)"
    by (simp add: Group_Do_def string_flight_def)
  have t: "\<not> has_type int_type (boxed ''string'' 0)"
    by (simp add: int_type_def)
  show ?thesis
    using d t ProccesWrapper_reports_type_mismatch [OF d t] by simp
qed

text \<open>
  Claim C9. Whenever the type assertion \<^verbatim>\<open>res.(T)\<close> fails, \<open>ProccesWrapper\<close>
  returns the zero value of \<open>T\<close> with the fixed error, whatever error
  \<^verbatim>\<open>Group.Do\<close> returned: that error is discarded.
\<close>

theorem ProccesWrapper_assertion_failure:
  assumes "Group_Do (Group single) (Key single) fn w = ((res, err), w')"
    and "type_assert T res = None"
  shows "ProccesWrapper T single fn w =
      ((zero_value T, Some (errors_New ''unexpected type assertion failure'')), w')"
  using assms by (simp add: ProccesWrapper_of_Do)

theorem ProccesWrapper_assertion_failure_witness:
  "Group_Do (Group idle_flight) (Key idle_flight) failing_work ()
     = ((nil_iface, Some (errors_New ''boom'')), ())
   \<and> type_assert any_type nil_iface = None
   \<and> ProccesWrapper any_type idle_flight failing_work ()
     = ((nil_iface, Some (errors_New ''unexpected type assertion failure'')), ())"
proof -
  have d: "Group_Do (Group idle_flight) (Key idle_flight) failing_work ()
     = ((nil_iface, Some (errors_New ''boom'')), ())"
    by (simp add: Group_Do_def idle_flight_def failing_work_def)
  have a: "type_assert any_type nil_iface = None" by simp
  show ?thesis
    using d a ProccesWrapper_assertion_failure [OF d a] by (simp add: any_type_def)
qed




section \<open>Properties of the product fetch\<close>

lemma ProccesWrapper_asserted:
  "ProccesWrapper T single fn w =
     (asserted T (fst (Group_Do (Group single) (Key single) fn w)),
      snd (Group_Do (Group single) (Key single) fn w))"
  by (simp add: ProccesWrapper_def asserted_def split: prod.splits option.splits)

lemma Forget_one: "Forget single [key] = single\<lparr>Group := (Group single)(key := None)\<rparr>"
  by (simp add: Forget_def Group_Forget_def)

lemma getProductFromCache_unfold:
  "getProductFromCache json_Unmarshal rdb sGroup productID currIdx =
     (let g = (if currIdx = 2 then sGroup(flight_key productID := None) else sGroup);
          ((res, err), rdb') =
            ProccesWrapper ProductPtr \<lparr>Group = g, Key = flight_key productID\<rparr>
              (getProductFromCache_fn json_Unmarshal productID) rdb
      in case err of
           Some e \<Rightarrow>
             ((None, Some (errors_Wrap e ''Failed to get product from cache'')), g, rdb')
         | None \<Rightarrow> ((ptr_of res, None), g, rdb'))"
  by (auto simp: getProductFromCache_def Forget_one Let_def split: prod.splits option.splits)

lemma getProductFromCache_fn_cases:
  "getProductFromCache_fn json_Unmarshal productID rdb =
     (let rdb' = rdb\<lparr>sent := sent rdb @ [GET (cache_key productID)]\<rparr>
      in case fst (rdb_Get (cache_key productID) rdb) of
           (val, Some e) \<Rightarrow>
             ((boxed ''*main.Product'' None,
               if errors_Is e redis_Nil then None else Some e), rdb')
         | (val, None) \<Rightarrow>
             (case json_Unmarshal val of
                Inl e \<Rightarrow> ((boxed ''*main.Product'' None,
                           Some (errors_Wrap e ''Failed to unmarshal product'')), rdb')
              | Inr product \<Rightarrow> ((boxed ''*main.Product'' (Some product), None), rdb')))"
  by (simp add: getProductFromCache_fn_def rdb_Get_def Let_def split: option.splits sum.splits)

lemma getProductFromCache_fn_client:
  "snd (getProductFromCache_fn json_Unmarshal productID rdb) =
     rdb\<lparr>sent := sent rdb @ [GET (cache_key productID)]\<rparr>"
  by (simp add: getProductFromCache_fn_cases Let_def split: prod.splits option.splits sum.splits)

lemma getProductFromCache_joined:
  assumes "currIdx \<noteq> 2" and "sGroup (flight_key productID) = Some r"
  shows "getProductFromCache json_Unmarshal rdb sGroup productID currIdx =
     ((case snd (asserted ProductPtr r) of
         Some e \<Rightarrow> (None, Some (errors_Wrap e ''Failed to get product from cache''))
       | None \<Rightarrow> (ptr_of (fst (asserted ProductPtr r)), None)),
      sGroup, rdb)"
  using assms
  by (simp add: getProductFromCache_unfold ProccesWrapper_asserted Group_Do_joined
      split: prod.splits option.splits)

lemma getProductFromCache_client:
  "snd (snd (getProductFromCache json_Unmarshal rdb sGroup productID currIdx)) = rdb
   \<or> snd (snd (getProductFromCache json_Unmarshal rdb sGroup productID currIdx)) =
       rdb\<lparr>sent := sent rdb @ [GET (cache_key productID)]\<rparr>"
proof -
  let ?g = "if currIdx = 2 then sGroup(flight_key productID := None) else sGroup"
  let ?fn = "getProductFromCache_fn json_Unmarshal productID"
  have c: "snd (snd (getProductFromCache json_Unmarshal rdb sGroup productID currIdx)) =
      snd (Group_Do ?g (flight_key productID) ?fn rdb)"
    by (simp add: getProductFromCache_unfold ProccesWrapper_asserted Let_def
        split: prod.splits option.splits)
  show ?thesis
  proof (cases "?g (flight_key productID)")
    case None
    then have "Group_Do ?g (flight_key productID) ?fn rdb = ?fn rdb"
      by (rule Group_Do_idle)
    with c show ?thesis
      by (simp add: getProductFromCache_fn_client)
  next
    case (Some r)
    then have "Group_Do ?g (flight_key productID) ?fn rdb = (r, rdb)"
      by (rule Group_Do_joined)
    with c show ?thesis
      by simp
  qed
qed

text \<open>
  Claim C8. On every input and every outcome, \<open>getProductFromCache\<close> leaves the
  content of the cache store as it was: the only command it can send is the one
  \<open>GET\<close> of the product's key, never a write.
\<close>

theorem getProductFromCache_no_write:
  "kv (snd (snd (getProductFromCache json_Unmarshal rdb sGroup productID currIdx))) = kv rdb
   \<and> (sent (snd (snd (getProductFromCache json_Unmarshal rdb sGroup productID currIdx)))
         = sent rdb
      \<or> sent (snd (snd (getProductFromCache json_Unmarshal rdb sGroup productID currIdx)))
         = sent rdb @ [GET (cache_key productID)])"
  using getProductFromCache_client [of json_Unmarshal rdb sGroup productID currIdx]
  by auto

lemma keys_1: "flight_key 1 = ''singleflight:product:1''" "cache_key 1 = ''product:1''"
  by (simp_all add: flight_key_def cache_key_def Sprint_def nat_digits.simps)

text \<open>
  Claim C4, as stated, fails: the cache holds a well-formed entry for product 1 (a
  hit), yet a call made while another call is in flight for the key returns that
  call's result and sends no lookup at all; the coalescer is entered first.
\<close>

theorem getProductFromCache_hit_counterexample:
  "fst (rdb_Get (cache_key 1) rdb_hit) = (product1_json, None)
   \<and> decode1 product1_json = Inr product1
   \<and> fst (getProductFromCache decode1 rdb_hit group_busy 1 0) = (Some product9, None)
   \<and> Some product9 \<noteq> Some product1
   \<and> sent (snd (snd (getProductFromCache decode1 rdb_hit group_busy 1 0))) = []"
  by (simp add: getProductFromCache_unfold ProccesWrapper_asserted asserted_def Group_Do_def
      keys_1 rdb_Get_def rdb_hit_def decode1_def group_busy_def ProductPtr_def
      product9_def product1_def)

lemma getProductFromCache_initiating:
  assumes "currIdx = 2 \<or> sGroup (flight_key productID) = None"
  shows "getProductFromCache json_Unmarshal rdb sGroup productID currIdx =
     ((case fst (rdb_Get (cache_key productID) rdb) of
         (val, Some e) \<Rightarrow>
           (if errors_Is e redis_Nil then (None, None)
            else (None, Some (errors_Wrap e ''Failed to get product from cache'')))
       | (val, None) \<Rightarrow>
           (case json_Unmarshal val of
              Inl e \<Rightarrow>
                (None, Some (errors_Wrap (errors_Wrap e ''Failed to unmarshal product'')
                               ''Failed to get product from cache''))
            | Inr product \<Rightarrow> (Some product, None))),
      (if currIdx = 2 then sGroup(flight_key productID := None) else sGroup),
      rdb\<lparr>sent := sent rdb @ [GET (cache_key productID)]\<rparr>)"
proof -
  let ?g = "if currIdx = 2 then sGroup(flight_key productID := None) else sGroup"
  let ?fn = "getProductFromCache_fn json_Unmarshal productID"
  have "?g (flight_key productID) = None"
    using assms by auto
  then have "Group_Do ?g (flight_key productID) ?fn rdb = ?fn rdb"
    by (rule Group_Do_idle)
  then have pw: "ProccesWrapper ProductPtr \<lparr>Group = ?g, Key = flight_key productID\<rparr> ?fn rdb
      = (asserted ProductPtr (fst (?fn rdb)), snd (?fn rdb))"
    by (simp add: ProccesWrapper_asserted)
  have "getProductFromCache json_Unmarshal rdb sGroup productID currIdx =
     (case asserted ProductPtr (fst (?fn rdb)) of
        (res, Some e) \<Rightarrow>
          ((None, Some (errors_Wrap e ''Failed to get product from cache'')), ?g, snd (?fn rdb))
      | (res, None) \<Rightarrow> ((ptr_of res, None), ?g, snd (?fn rdb)))"
    unfolding getProductFromCache_unfold Let_def pw
    by (simp split: prod.splits option.splits)
  then show ?thesis
    by (auto simp: asserted_def getProductFromCache_fn_cases ProductPtr_def Let_def
        split: prod.splits option.splits sum.splits if_splits)
qed

text \<open>
  Claim C5. For a call that runs the lookup (no call in flight for the key, or
  \<open>currIdx = 2\<close>): when the store answers \<^verbatim>\<open>redis.Nil\<close>,
  \<open>getProductFromCache\<close> returns a nil product and a nil error; when it answers any
  other error (a transport error), the call returns that error, wrapped; and the nil
  product with the nil error is returned in no other case than \<^verbatim>\<open>redis.Nil\<close>,
  so neither a transport error nor a value that fails to unmarshal (nor a hit) gives
  it.
\<close>

theorem getProductFromCache_not_found:
  assumes "currIdx = 2 \<or> sGroup (flight_key productID) = None"
  shows "(snd (fst (rdb_Get (cache_key productID) rdb)) = Some e \<and> errors_Is e redis_Nil \<longrightarrow>
            fst (getProductFromCache json_Unmarshal rdb sGroup productID currIdx)
              = (None, None))
       \<and> (snd (fst (rdb_Get (cache_key productID) rdb)) = Some e \<and> \<not> errors_Is e redis_Nil \<longrightarrow>
            fst (getProductFromCache json_Unmarshal rdb sGroup productID currIdx)
              = (None, Some (errors_Wrap e ''Failed to get product from cache'')))
       \<and> (fst (getProductFromCache json_Unmarshal rdb sGroup productID currIdx) = (None, None) \<longrightarrow>
            (case snd (fst (rdb_Get (cache_key productID) rdb)) of
               Some e' \<Rightarrow> errors_Is e' redis_Nil
             | None \<Rightarrow> False))"
proof -
  note run = getProductFromCache_initiating [where currIdx = currIdx and sGroup = sGroup
      and productID = productID and rdb = rdb and json_Unmarshal = json_Unmarshal]
  obtain val err where reply: "fst (rdb_Get (cache_key productID) rdb) = (val, err)"
    by (cases "fst (rdb_Get (cache_key productID) rdb)")
  show ?thesis
  proof (cases err)
    case None
    with reply assms run show ?thesis
      by (cases "json_Unmarshal val") simp_all
  next
    case (Some e')
    with reply assms run show ?thesis
      by (cases "errors_Is e' redis_Nil") auto
  qed
qed

theorem getProductFromCache_not_found_witness:
  "group_idle (flight_key 1) = None
   \<and> snd (fst (rdb_Get (cache_key 1) rdb_empty)) = Some redis_Nil
   \<and> errors_Is redis_Nil redis_Nil
   \<and> fst (getProductFromCache decode1 rdb_empty group_idle 1 0) = (None, None)
   \<and> snd (fst (rdb_Get (cache_key 1) rdb_down))
       = Some (errors_New ''dial tcp 127.0.0.1:6379: connect: connection refused'')
   \<and> \<not> errors_Is (errors_New ''dial tcp 127.0.0.1:6379: connect: connection refused'')
          redis_Nil
   \<and> fst (getProductFromCache decode1 rdb_down group_idle 1 0)
       = (None, Some (errors_Wrap
            (errors_New ''dial tcp 127.0.0.1:6379: connect: connection refused'')
            ''Failed to get product from cache''))"
proof -
  have g: "0 = (2::int) \<or> group_idle (flight_key 1) = None"
    by (simp add: group_idle_def)
  have r: "snd (fst (rdb_Get (cache_key 1) rdb_empty)) = Some redis_Nil"
    by (simp add: rdb_Get_def rdb_empty_def)
  have d: "snd (fst (rdb_Get (cache_key 1) rdb_down))
       = Some (errors_New ''dial tcp 127.0.0.1:6379: connect: connection refused'')"
    by (simp add: rdb_Get_def rdb_down_def)
  show ?thesis
    using g r d
      getProductFromCache_not_found [where currIdx = 0 and sGroup = group_idle
        and productID = 1 and rdb = rdb_empty and e = redis_Nil
        and json_Unmarshal = decode1]
      getProductFromCache_not_found [where currIdx = 0 and sGroup = group_idle
        and productID = 1 and rdb = rdb_down
        and e = "errors_New ''dial tcp 127.0.0.1:6379: connect: connection refused''"
        and json_Unmarshal = decode1]
    by simp
qed

text \<open>
  Claim C6. When the lookup of a call that runs it gives a raw value that fails to
  unmarshal, \<open>getProductFromCache\<close> returns a nil product and a non-nil error: the
  decoder's error, wrapped twice.
\<close>

theorem getProductFromCache_unmarshal_failure:
  assumes "currIdx = 2 \<or> sGroup (flight_key productID) = None"
    and "fst (rdb_Get (cache_key productID) rdb) = (raw, None)"
    and "json_Unmarshal raw = Inl e"
  shows "fst (getProductFromCache json_Unmarshal rdb sGroup productID currIdx) =
      (None, Some (errors_Wrap (errors_Wrap e ''Failed to unmarshal product'')
                     ''Failed to get product from cache''))"
  using assms
    getProductFromCache_initiating [where currIdx = currIdx and sGroup = sGroup
      and productID = productID and rdb = rdb and json_Unmarshal = json_Unmarshal]
  by simp

theorem getProductFromCache_unmarshal_failure_witness:
  "group_idle (flight_key 1) = None
   \<and> fst (rdb_Get (cache_key 1) rdb_corrupt) = (''garbage'', None)
   \<and> decode1 ''garbage'' = Inl (errors_New garbage_error)
   \<and> fst (getProductFromCache decode1 rdb_corrupt group_idle 1 0) =
      (None, Some (errors_Wrap (errors_Wrap (errors_New garbage_error)
                                  ''Failed to unmarshal product'')
                     ''Failed to get product from cache''))"
proof -
  have g: "0 = (2::int) \<or> group_idle (flight_key 1) = None"
    by (simp add: group_idle_def)
  have r: "fst (rdb_Get (cache_key 1) rdb_corrupt) = (''garbage'', None)"
    by (simp add: rdb_Get_def rdb_corrupt_def keys_1)
  have u: "decode1 ''garbage'' = Inl (errors_New garbage_error)"
    by (simp add: decode1_def product1_json_def)
  show ?thesis
    using g r u
      getProductFromCache_unmarshal_failure [where currIdx = 0 and sGroup = group_idle
        and productID = 1 and rdb = rdb_corrupt and raw = "''garbage''"
        and e = "errors_New garbage_error" and json_Unmarshal = decode1]
    by simp
qed

text \<open>
  Claim C4, amended. \<open>getProductFromCache\<close> enters the coalescer on every call, and
  the cache lookup is the coalesced work. A call that finds a call in flight for the
  key (and \<open>currIdx \<noteq> 2\<close>) returns what the wrapper makes of that call's result
  and sends no lookup; every call that finds none (or has \<open>currIdx = 2\<close>) sends
  exactly one lookup, whatever its outcome, and on a hit that unmarshals it returns
  the cached product.
\<close>

theorem getProductFromCache_through_coalescer:
  "(currIdx \<noteq> 2 \<and> sGroup (flight_key productID) = Some r \<longrightarrow>
      getProductFromCache json_Unmarshal rdb sGroup productID currIdx =
        ((case snd (asserted ProductPtr r) of
            Some e \<Rightarrow> (None, Some (errors_Wrap e ''Failed to get product from cache''))
          | None \<Rightarrow> (ptr_of (fst (asserted ProductPtr r)), None)),
         sGroup, rdb))
   \<and> (currIdx = 2 \<or> sGroup (flight_key productID) = None \<longrightarrow>
      snd (snd (getProductFromCache json_Unmarshal rdb sGroup productID currIdx))
        = rdb\<lparr>sent := sent rdb @ [GET (cache_key productID)]\<rparr>)
   \<and> ((currIdx = 2 \<or> sGroup (flight_key productID) = None)
        \<and> fst (rdb_Get (cache_key productID) rdb) = (raw, None)
        \<and> json_Unmarshal raw = Inr product \<longrightarrow>
      fst (getProductFromCache json_Unmarshal rdb sGroup productID currIdx)
        = (Some product, None))"
proof (intro conjI impI)
  assume "currIdx \<noteq> 2 \<and> sGroup (flight_key productID) = Some r"
  then show "getProductFromCache json_Unmarshal rdb sGroup productID currIdx =
        ((case snd (asserted ProductPtr r) of
            Some e \<Rightarrow> (None, Some (errors_Wrap e ''Failed to get product from cache''))
          | None \<Rightarrow> (ptr_of (fst (asserted ProductPtr r)), None)),
         sGroup, rdb)"
    by (simp add: getProductFromCache_joined)
next
  assume i: "currIdx = 2 \<or> sGroup (flight_key productID) = None"
  note run = getProductFromCache_initiating [where currIdx = currIdx and sGroup = sGroup
      and productID = productID and rdb = rdb and json_Unmarshal = json_Unmarshal]
  show "snd (snd (getProductFromCache json_Unmarshal rdb sGroup productID currIdx))
        = rdb\<lparr>sent := sent rdb @ [GET (cache_key productID)]\<rparr>"
    using i run by simp
next
  assume h: "(currIdx = 2 \<or> sGroup (flight_key productID) = None)
        \<and> fst (rdb_Get (cache_key productID) rdb) = (raw, None)
        \<and> json_Unmarshal raw = Inr product"
  then have i: "currIdx = 2 \<or> sGroup (flight_key productID) = None"
    by simp
  note run = getProductFromCache_initiating [where currIdx = currIdx and sGroup = sGroup
      and productID = productID and rdb = rdb and json_Unmarshal = json_Unmarshal]
  show "fst (getProductFromCache json_Unmarshal rdb sGroup productID currIdx)
        = (Some product, None)"
    using h i run by simp
qed

theorem getProductFromCache_through_coalescer_witness:
  "group_busy (flight_key 1) = Some (boxed ''*main.Product'' (Some product9), None)
   \<and> getProductFromCache decode1 rdb_hit group_busy 1 0
       = ((Some product9, None), group_busy, rdb_hit)
   \<and> group_idle (flight_key 1) = None
   \<and> fst (rdb_Get (cache_key 1) rdb_hit) = (product1_json, None)
   \<and> decode1 product1_json = Inr product1
   \<and> fst (getProductFromCache decode1 rdb_hit group_idle 1 0) = (Some product1, None)
   \<and> snd (snd (getProductFromCache decode1 rdb_hit group_idle 1 0))
       = rdb_hit\<lparr>sent := [GET ''product:1'']\<rparr>
   \<and> snd (snd (getProductFromCache decode1 rdb_empty group_idle 1 0))
       = rdb_empty\<lparr>sent := [GET ''product:1'']\<rparr>"
proof -
  have b: "group_busy (flight_key 1) = Some (boxed ''*main.Product'' (Some product9), None)"
    by (simp add: group_busy_def keys_1)
  have i: "group_idle (flight_key 1) = None"
    by (simp add: group_idle_def)
  have r: "fst (rdb_Get (cache_key 1) rdb_hit) = (product1_json, None)"
    by (simp add: rdb_Get_def rdb_hit_def keys_1)
  have u: "decode1 product1_json = Inr product1"
    by (simp add: decode1_def)
  have a: "asserted ProductPtr (boxed ''*main.Product'' (Some product9), None)
      = (boxed ''*main.Product'' (Some product9), None)"
    by (simp add: asserted_def ProductPtr_def)
  have s: "sent rdb_hit = []" "sent rdb_empty = []"
    by (simp_all add: rdb_hit_def rdb_empty_def)
  show ?thesis
    using b i r u a s
      getProductFromCache_through_coalescer [where currIdx = 0 and sGroup = group_busy
        and productID = 1 and r = "(boxed ''*main.Product'' (Some product9), None)"
        and json_Unmarshal = decode1 and rdb = rdb_hit
        and raw = product1_json and product = product1]
      getProductFromCache_through_coalescer [where currIdx = 0 and sGroup = group_idle
        and productID = 1 and r = "(boxed ''*main.Product'' (Some product9), None)"
        and json_Unmarshal = decode1 and rdb = rdb_hit
        and raw = product1_json and product = product1]
      getProductFromCache_through_coalescer [where currIdx = 0 and sGroup = group_idle
        and productID = 1 and r = "(boxed ''*main.Product'' (Some product9), None)"
        and json_Unmarshal = decode1 and rdb = rdb_empty
        and raw = product1_json and product = product1]
    by (simp add: keys_1)
qed

section \<open>Properties of the account update\<close>

lemma AddToBankAccountWithMutex_cases:
  "AddToBankAccountWithMutex accountId amount NewMutex s =
     (case Lock (NewMutex (mutex_name accountId)) s of
        (Some e, s1) \<Rightarrow> (Some e, s1)
      | (None, s1) \<Rightarrow> (None, snd (Unlock (NewMutex (mutex_name accountId)) s1)))"
  by (simp add: AddToBankAccountWithMutex_def Let_def split: prod.splits option.splits)

text \<open>
  Claim C10. The error that \<open>AddToBankAccountWithMutex\<close> returns is the same
  whatever \<open>Unlock\<close> does, and it is nil whenever \<open>Lock\<close> succeeded: an unlock
  that reports \<open>released = false\<close> or an error is not surfaced.
\<close>

theorem AddToBankAccountWithMutex_ignores_Unlock:
  "fst (AddToBankAccountWithMutex accountId amount (\<lambda>nm. (NewMutex nm)\<lparr>Unlock := u nm\<rparr>) s)
     = fst (AddToBankAccountWithMutex accountId amount NewMutex s)
   \<and> (fst (Lock (NewMutex (mutex_name accountId)) s) = None \<longrightarrow>
        fst (AddToBankAccountWithMutex accountId amount NewMutex s) = None)"
  by (simp add: AddToBankAccountWithMutex_cases split: prod.splits option.splits)

theorem AddToBankAccountWithMutex_ignores_Unlock_witness:
  "fst (Lock (mutex_lost (mutex_name ''42'')) 0) = None
   \<and> fst (Unlock (mutex_lost (mutex_name ''42'')) 1)
       = (False, Some (errors_New ''lock already expired''))
   \<and> AddToBankAccountWithMutex ''42'' 100 mutex_lost 0 = (None, 1)
   \<and> fst (AddToBankAccountWithMutex ''42'' 100 mutex_ok 0) = None"
proof -
  have l: "fst (Lock (mutex_lost (mutex_name ''42'')) 0) = None"
    by (simp add: mutex_lost_def)
  have u: "fst (Unlock (mutex_lost (mutex_name ''42'')) 1)
       = (False, Some (errors_New ''lock already expired''))"
    by (simp add: mutex_lost_def)
  have e: "(\<lambda>nm. (mutex_lost nm)\<lparr>Unlock := Unlock (mutex_ok nm)\<rparr>) = mutex_ok"
    by (rule ext) (simp add: mutex_lost_def mutex_ok_def)
  have a: "AddToBankAccountWithMutex ''42'' 100 mutex_lost 0 = (None, 1)"
    by (simp add: AddToBankAccountWithMutex_cases mutex_lost_def)
  show ?thesis
    using l u a e
      AddToBankAccountWithMutex_ignores_Unlock [where accountId = "''42''"
        and amount = 100 and NewMutex = mutex_lost
        and u = "\<lambda>nm. Unlock (mutex_ok nm)" and s = 0]
    by simp
qed

section \<open>Properties of concurrent callers\<close>










section \<open>Properties of the lease store\<close>

lemma length_filter_filter: "length (filter P (filter Q xs)) \<le> length (filter P xs)"
  by (induction xs) auto

lemma length_filter_mono:
  "(\<And>x. P x \<Longrightarrow> Q x) \<Longrightarrow> length (filter P xs) \<le> length (filter Q xs)"
  by (induction xs) auto

lemma held_TryCreate:
  "length (held s nm') \<le> 1 \<Longrightarrow> length (held (snd (TryCreate nm tok ttl s)) nm') \<le> 1"
  by (auto simp: TryCreate_def held_def unexpired_def)

lemma held_DeleteIfOwner:
  "length (held (snd (DeleteIfOwner nm tok s)) nm') \<le> length (held s nm')"
proof -
  have "length (filter (\<lambda>l. lname l = nm' \<and> clock s < expiry l)
          (filter (\<lambda>l. \<not> (lname l = nm \<and> owner l = tok)) (leases s)))
        \<le> length (filter (\<lambda>l. lname l = nm' \<and> clock s < expiry l) (leases s))"
    by (rule length_filter_filter)
  then show ?thesis
    by (simp add: DeleteIfOwner_def held_def unexpired_def del: filter_filter)
qed

lemma held_elapse: "length (held (elapse d s) nm') \<le> length (held s nm')"
proof -
  have "length (filter (\<lambda>l. lname l = nm' \<and> clock s + d < expiry l) (leases s))
        \<le> length (filter (\<lambda>l. lname l = nm' \<and> clock s < expiry l) (leases s))"
    by (rule length_filter_mono) simp
  then show ?thesis
    by (simp add: held_def elapse_def unexpired_def)
qed

lemma held_purge: "held (purge s) nm' = held s nm'"
  by (auto simp: held_def purge_def unexpired_def intro: filter_cong)

lemma snd_Lock: "snd (Lock (lease_Mutex tok ttl nm) s) = snd (TryCreate nm tok ttl s)"
  by (simp add: lease_Mutex_def split: prod.splits bool.splits)

lemma snd_Unlock: "snd (Unlock (lease_Mutex tok ttl nm) s) = snd (DeleteIfOwner nm tok s)"
  by (simp add: lease_Mutex_def split: prod.splits bool.splits)

lemma snd_AddToBankAccountWithMutex:
  "snd (AddToBankAccountWithMutex accountId amount (lease_Mutex tok ttl) s) =
     (if fst (TryCreate (mutex_name accountId) tok ttl s)
      then snd (DeleteIfOwner (mutex_name accountId) tok
                 (snd (TryCreate (mutex_name accountId) tok ttl s)))
      else s)"
  by (simp add: AddToBankAccountWithMutex_cases lease_Mutex_def TryCreate_def
      split: prod.splits option.splits bool.splits)

lemma exclusive_step:
  assumes e: "\<And>nm. length (held s nm) \<le> 1"
  shows "length (held (lease_step s ev) nm') \<le> 1"
proof (cases ev)
  case (Lock_by tok ttl nm)
  show ?thesis
    unfolding Lock_by lease_step.simps snd_Lock
    by (rule held_TryCreate) (rule e)
next
  case (Unlock_by tok ttl nm)
  show ?thesis
    unfolding Unlock_by lease_step.simps snd_Unlock
    by (rule le_trans [OF held_DeleteIfOwner]) (rule e)
next
  case (Account_update accountId amount tok ttl)
  have "length (held (snd (TryCreate (mutex_name accountId) tok ttl s)) nm') \<le> 1"
    by (rule held_TryCreate) (rule e)
  then have "length (held (snd (DeleteIfOwner (mutex_name accountId) tok
                 (snd (TryCreate (mutex_name accountId) tok ttl s)))) nm') \<le> 1"
    by (rule le_trans [OF held_DeleteIfOwner])
  then show ?thesis
    using e [of nm'] by (simp add: Account_update snd_AddToBankAccountWithMutex)
next
  case (Elapse d)
  show ?thesis
    unfolding Elapse lease_step.simps
    by (rule le_trans [OF held_elapse]) (rule e)
next
  case Purge
  show ?thesis
    using e [of nm'] by (simp add: Purge held_purge)
qed

lemma exclusive_foldl:
  "(\<And>nm. length (held s nm) \<le> 1) \<Longrightarrow> length (held (foldl lease_step s evs) nm') \<le> 1"
proof (induction evs arbitrary: s nm')
  case Nil
  then show ?case by simp
next
  case (Cons ev evs)
  have "\<And>nm. length (held (lease_step s ev) nm) \<le> 1"
    by (rule exclusive_step) (rule Cons.prems)
  then have "length (held (foldl lease_step (lease_step s ev) evs) nm') \<le> 1"
    by (rule Cons.IH)
  then show ?case by simp
qed

lemma exclusive_interleaving: "length (held (interleaving evs) nm) \<le> 1"
  unfolding interleaving_def
  by (rule exclusive_foldl) (simp add: held_def)

lemma Lock_contended:
  "l \<in> set (held s nm) \<Longrightarrow>
   Lock (lease_Mutex tok ttl nm) s = (Some (errors_New ''LockContention''), s)"
  by (auto simp: lease_Mutex_def TryCreate_def)

text \<open>
  Claim C3. In every state that an interleaving of lease-store steps reaches, at most
  one unexpired lease exists per lock name; and while an unexpired lease exists for a
  name it is the only one, and a \<open>Lock\<close> of that name by any owner token fails with
  the contention error and leaves the store as it is.
\<close>

theorem lease_store_mutual_exclusion:
  "length (held (interleaving evs) nm) \<le> 1
   \<and> (l \<in> set (held (interleaving evs) nm) \<longrightarrow>
        held (interleaving evs) nm = [l]
        \<and> Lock (lease_Mutex tok ttl nm) (interleaving evs)
            = (Some (errors_New ''LockContention''), interleaving evs))"
proof -
  have one: "length (held (interleaving evs) nm) \<le> 1"
    by (rule exclusive_interleaving)
  have "held (interleaving evs) nm = [l]" if "l \<in> set (held (interleaving evs) nm)"
    using one that by (cases "held (interleaving evs) nm") auto
  then show ?thesis
    using one by (simp add: Lock_contended)
qed


theorem lease_store_mutual_exclusion_witness:
  "interleaving [Lock_by ''A'' 2 ''acct:42'']
     = \<lparr>leases = [\<lparr>lname = ''acct:42'', owner = ''A'', expiry = 2\<rparr>], clock = 0\<rparr>
   \<and> \<lparr>lname = ''acct:42'', owner = ''A'', expiry = 2\<rparr>
       \<in> set (held (interleaving [Lock_by ''A'' 2 ''acct:42'']) ''acct:42'')
   \<and> length (held (interleaving [Lock_by ''A'' 2 ''acct:42'']) ''acct:42'') \<le> 1
   \<and> fst (Lock (lease_Mutex ''B'' 2 ''acct:42'') (interleaving [Lock_by ''A'' 2 ''acct:42'']))
       = Some (errors_New ''LockContention'')"
proof -
  have s: "interleaving [Lock_by ''A'' 2 ''acct:42'']
     = \<lparr>leases = [\<lparr>lname = ''acct:42'', owner = ''A'', expiry = 2\<rparr>], clock = 0\<rparr>"
    by (simp add: interleaving_def lease_Mutex_def TryCreate_def held_def)
  have h: "\<lparr>lname = ''acct:42'', owner = ''A'', expiry = 2\<rparr>
       \<in> set (held (interleaving [Lock_by ''A'' 2 ''acct:42'']) ''acct:42'')"
    unfolding s by (simp add: held_def unexpired_def)
  show ?thesis
    using s h
      lease_store_mutual_exclusion [where evs = "[Lock_by ''A'' 2 ''acct:42'']"
        and nm = "''acct:42''" and tok = "''B''" and ttl = 2
        and l = "\<lparr>lname = ''acct:42'', owner = ''A'', expiry = 2\<rparr>"]
    by simp
qed

end
